theory Spec2Isabelle
  imports Main "HOL-Library.Char_ord" "HOL-Library.List_Lexorder"
begin

section \<open>The WhatsApp booking webhook of hotel-bot-server.js\<close>

text \<open>
  The development embeds \<^verbatim>\<open>src/hotel-bot-server.js\<close>: the availability check
  \<^verbatim>\<open>isRangeAvailable\<close>, the helper \<^verbatim>\<open>sendMessage\<close> and the handler of
  \<^verbatim>\<open>POST /whatsapp\<close>. The second source file is an earlier variant of the same
  server. Its availability check and its booking branch are the same, statement
  for statement (it calls \<^verbatim>\<open>twilioClient.messages.create\<close> directly where the first
  file calls \<^verbatim>\<open>sendMessage\<close>); it differs in the menu texts, in having no options
  2 to 4 and no OpenAI fallback, and in not loading the plug-in
  \<^verbatim>\<open>customParseFormat\<close> of the date library, on which the reading of
  \<^verbatim>\<open>DD/MM/YYYY\<close> rests. Where the two differ the model follows the first file.

  The handler is an \<^verbatim>\<open>async\<close> function: every \<^verbatim>\<open>await\<close> of a collaborator
  (Firestore, the QR encoder, PDFKit, the FTP client, Twilio, OpenAI) either yields
  a value or rejects. A rejection that no \<^verbatim>\<open>try\<close> encloses ends the handler there;
  what the handler had done to the process and to the outside world stays done.
  The model therefore passes the state explicitly, returns it in both cases, and
  records every collaborator call and every write to the session object in a trace,
  in the order in which the handler makes them.
\<close>

subsection \<open>Strings\<close>

text \<open>
  A JavaScript string is modelled by a \<^typ>\<open>string\<close>: a list of characters, each
  standing for the code unit of the same number (U+0000 to U+00FF). Relational
  operators on two strings compare code units lexicographically, a proper prefix
  being smaller; this is the order of \<^theory_text>\<open>List_Lexorder\<close> over
  \<^theory_text>\<open>Char_ord\<close>.
\<close>

definition is_space :: "char \<Rightarrow> bool" where
  \<comment> \<open>the class \<^verbatim>\<open>\s\<close> and the characters \<^verbatim>\<open>trim\<close> strips, below U+0100\<close>
  "is_space c \<longleftrightarrow>
     c \<in> set [CHR 0x09, CHR 0x0A, CHR 0x0B, CHR 0x0C, CHR 0x0D, CHR 0x20, CHR 0xA0]"

definition is_digit :: "char \<Rightarrow> bool" where
  \<comment> \<open>the class \<^verbatim>\<open>\d\<close>: the ten ASCII digits\<close>
  "is_digit c \<longleftrightarrow> c \<in> set ''0123456789''"

definition trim :: "string \<Rightarrow> string" where
  "trim s = rev (dropWhile is_space (rev (dropWhile is_space s)))"

definition lower_char :: "char \<Rightarrow> char" where
  "lower_char c =
     (let n = (of_char c :: nat) in
      if (65 \<le> n \<and> n \<le> 90) \<or> (192 \<le> n \<and> n \<le> 222 \<and> n \<noteq> 215)
      then char_of (n + 32) else c)"

definition toLowerCase :: "string \<Rightarrow> string" where
  "toLowerCase s = map lower_char s"

fun replace_first :: "string \<Rightarrow> string \<Rightarrow> string \<Rightarrow> string" where
  \<comment> \<open>\<^verbatim>\<open>s.replace(pat, rep)\<close> with a string pattern: the first occurrence only\<close>
  "replace_first pat rep [] = (if pat = [] then rep else [])"
| "replace_first pat rep (c # cs) =
     (if take (length pat) (c # cs) = pat then rep @ drop (length pat) (c # cs)
      else c # replace_first pat rep cs)"

subsection \<open>The date-range pattern\<close>

text \<open>
  \<^verbatim>\<open>/(\d{2}\/\d{2}\/\d{4})\s*-\s*(\d{2}\/\d{2}\/\d{4})/\<close>, used with
  \<^verbatim>\<open>String.prototype.match\<close>: the leftmost position at which the pattern matches,
  and the two captured groups. Both \<^verbatim>\<open>\s*\<close> are followed by a character that is
  not white space, so the greedy match takes every white space character and
  backtracking finds nothing more.
\<close>

fun chars_match :: "(char \<Rightarrow> bool) list \<Rightarrow> string \<Rightarrow> bool" where
  "chars_match [] s = True"
| "chars_match (p # ps) [] = False"
| "chars_match (p # ps) (c # cs) = (p c \<and> chars_match ps cs)"

definition date_pattern :: "(char \<Rightarrow> bool) list" where
  \<comment> \<open>\<^verbatim>\<open>\d{2}\/\d{2}\/\d{4}\<close>\<close>
  "date_pattern =
     [is_digit, is_digit, (\<lambda>c. c = CHR ''/''), is_digit, is_digit, (\<lambda>c. c = CHR ''/''),
      is_digit, is_digit, is_digit, is_digit]"

definition match_here :: "string \<Rightarrow> (string \<times> string) option" where
  \<comment> \<open>the pattern matched at the first character of the text\<close>
  "match_here s =
     (if chars_match date_pattern s then
        (case dropWhile is_space (drop 10 s) of
           [] \<Rightarrow> None
         | c # r \<Rightarrow>
             if c = CHR ''-'' then
               (let r' = dropWhile is_space r in
                if chars_match date_pattern r' then Some (take 10 s, take 10 r') else None)
             else None)
      else None)"

fun regex_match :: "string \<Rightarrow> (string \<times> string) option" where
  \<comment> \<open>\<^verbatim>\<open>incomingMsg.match(regex)\<close>: \<open>None\<close> is \<^verbatim>\<open>null\<close>, otherwise the groups 1 and 2\<close>
  "regex_match [] = None"
| "regex_match (c # cs) =
     (case match_here (c # cs) of Some m \<Rightarrow> Some m | None \<Rightarrow> regex_match cs)"

subsection \<open>The date library\<close>

text \<open>
  Modelled from the spec: the date library (dayjs with its customParseFormat
  plug-in) is imported by the source and is no part of it. Section 4.3 of the
  specification describes what the handler uses it for: a text \<^verbatim>\<open>DD/MM/YYYY\<close> is
  turned into the canonical form \<^verbatim>\<open>YYYY-MM-DD\<close>, with no validation "beyond what the
  date library accepts". The source calls \<^verbatim>\<open>dayjs(text, 'DD/MM/YYYY')\<close> with two
  arguments, that is without the library's strict flag. In that mode the library
  reads the three numbers and hands them to the JavaScript constructor
  \<^verbatim>\<open>new Date(year, month - 1, day)\<close>, which accepts every day and month number
  and carries the excess into the following months and years, and which reads a
  year from 0 to 99 as 1900 plus that number. A component that is zero counts as
  absent: an absent day is 1 (today's day when month and year are absent too), an
  absent month is January when a year is given and the current month otherwise, an
  absent year is the current year. \<^verbatim>\<open>format('YYYY-MM-DD')\<close> then prints year, month
  and day, padded with zeros to at least 4, 2 and 2 digits.

  The handler passes only texts of the shape \<^verbatim>\<open>\d{2}\/\d{2}\/\d{4}\<close>; for any other
  text the model answers the library's \<^verbatim>\<open>Invalid Date\<close>.
\<close>

definition digit_val :: "char \<Rightarrow> nat" where
  \<comment> \<open>the value of a digit: its place among the ten digits\<close>
  "digit_val c = length (takeWhile (\<lambda>d. d \<noteq> c) ''0123456789'')"

definition num_of :: "string \<Rightarrow> nat" where
  "num_of s = foldl (\<lambda>n c. 10 * n + digit_val c) 0 s"

definition digit_char :: "nat \<Rightarrow> char" where
  "digit_char n = ''0123456789'' ! (n mod 10)"

function decimal :: "nat \<Rightarrow> string" where
  "decimal n = (if n < 10 then [digit_char n] else decimal (n div 10) @ [digit_char n])"
  by pat_completeness auto
termination
  by (relation "measure (\<lambda>n. n)") auto

definition padStart :: "nat \<Rightarrow> char \<Rightarrow> string \<Rightarrow> string" where
  "padStart w c s = replicate (w - length s) c @ s"

definition leap_year :: "nat \<Rightarrow> bool" where
  "leap_year y \<longleftrightarrow> (y mod 4 = 0 \<and> y mod 100 \<noteq> 0) \<or> y mod 400 = 0"

definition days_in_month :: "nat \<Rightarrow> nat \<Rightarrow> nat" where
  \<comment> \<open>the month is an index from 0 (January) to 11\<close>
  "days_in_month y m =
     (if m = 1 then (if leap_year y then 29 else 28)
      else if m \<in> {3, 5, 8, 10} then 30 else 31)"

function roll_days :: "nat \<Rightarrow> nat \<Rightarrow> nat \<Rightarrow> nat \<times> nat \<times> nat" where
  \<comment> \<open>a day number past the end of the month is carried into the months that follow\<close>
  "roll_days y m d =
     (if days_in_month y m < d
      then roll_days (if m = 11 then y + 1 else y) (if m = 11 then 0 else m + 1)
             (d - days_in_month y m)
      else (y, m, d))"
  by pat_completeness auto
termination
  by (relation "measure (\<lambda>(y, m, d). d)") (auto simp: days_in_month_def)

definition js_Date :: "nat \<Rightarrow> nat \<Rightarrow> nat \<Rightarrow> nat \<times> nat \<times> nat" where
  \<comment> \<open>Modelled from the spec: \<^verbatim>\<open>new Date(y, M, d)\<close> for a day of at least 1, as the date
      library calls it; year, month index and day of the result\<close>
  "js_Date y M d =
     roll_days ((if y \<le> 99 then 1900 + y else y) + M div 12) (M mod 12) d"

definition dayjs_parse :: "nat \<times> nat \<times> nat \<Rightarrow> nat \<Rightarrow> nat \<Rightarrow> nat \<Rightarrow> nat \<times> nat \<times> nat" where
  \<comment> \<open>Modelled from the spec: the date the library (not in the sources) builds from
      the numbers read for \<^verbatim>\<open>DD\<close>, \<^verbatim>\<open>MM\<close> and \<^verbatim>\<open>YYYY\<close>; the first argument is the
      clock it reads: the current year, month index and day\<close>
  "dayjs_parse now day month year =
     (let d = (if day \<noteq> 0 then day
               else if year = 0 \<and> month = 0 then snd (snd now) else 1);
          y = (if year \<noteq> 0 then year else fst now);
          M = (if year \<noteq> 0 \<and> month = 0 then 0
               else if month > 0 then month - 1 else fst (snd now))
      in js_Date y M d)"

definition format_iso :: "nat \<times> nat \<times> nat \<Rightarrow> string" where
  \<comment> \<open>Modelled from the spec: \<^verbatim>\<open>format('YYYY-MM-DD')\<close> of the date library, for a date
      given by year, month index and day\<close>
  "format_iso date =
     (case date of
        (yy, mm, dd) \<Rightarrow>
          padStart 4 CHR ''0'' (decimal yy) @ ''-'' @
          padStart 2 CHR ''0'' (decimal (mm + 1)) @ ''-'' @
          padStart 2 CHR ''0'' (decimal dd))"

definition dayjs_format :: "nat \<times> nat \<times> nat \<Rightarrow> string \<Rightarrow> string" where
  \<comment> \<open>Modelled from the spec: \<^verbatim>\<open>dayjs(text, 'DD/MM/YYYY').format('YYYY-MM-DD')\<close>, the
      call of the date library (not in the sources) as the handler makes it\<close>
  "dayjs_format now text =
     (if chars_match date_pattern text \<and> length text = 10 then
        format_iso
          (dayjs_parse now (num_of (take 2 text)) (num_of (take 2 (drop 3 text)))
             (num_of (drop 6 text)))
      else ''Invalid Date'')"

subsection \<open>Data\<close>

type_synonym buffer = "nat list"

datatype field_value = ServerTimestamp
  \<comment> \<open>\<^verbatim>\<open>admin.firestore.FieldValue.serverTimestamp()\<close>\<close>

text \<open>
  A document of the collection \<^verbatim>\<open>reservas\<close>, with the fields the handler writes.
  The collection is taken to hold documents of this shape only.
\<close>

record reserva =
  nombre :: string
  phone :: string
  fechaEntrada :: string
  fechaSalida :: string
  roomId :: string
  personas :: int
  origen :: string
  estado :: string
  createdAt :: field_value
  updatedAt :: field_value

text \<open>The object handed to \<^verbatim>\<open>generarPDFReserva\<close>.\<close>

record pdf_reserva =
  pdf_id :: string
  pdf_nombre :: string
  pdf_fechaEntrada :: string
  pdf_fechaSalida :: string
  pdf_personas :: int

text \<open>
  The message bodies are kept as the templates of the source, one constructor for
  each, with the values the template interpolates:
  \<^item> \<open>FormatoInvalido\<close>: \<^verbatim>\<open>Formato invalido. Ejemplo: 20/10/2025 - 23/10/2025\<close>
  \<^item> \<open>NoDisponible s e\<close>: \<^verbatim>\<open>No disponible del ${startDate} al ${endDate}.\<close>
  \<^item> \<open>ReservaConfirmada i s e\<close>: \<^verbatim>\<open>Reserva confirmada\nID: ${ref.id}\nFechas: ${startDate} a ${endDate}\nAqui tienes tu confirmacion en PDF:\<close>
  \<^item> \<open>Menu\<close>: the welcome text with the four options
  \<^item> \<open>PedirFechas\<close>: \<^verbatim>\<open>Por favor indicame tus fechas en el formato DD/MM/YYYY - DD/MM/YYYY\<close>
  \<^item> \<open>Tours\<close>, \<open>Oferta\<close>, \<open>Asesor\<close>: the static replies to the options 2, 3 and 4
  \<^item> \<open>RespuestaAI r\<close>: the robot sign followed by the answer of the language model
  \<^item> \<open>LoSiento\<close>: \<^verbatim>\<open>Lo siento, no pude procesar tu consulta ahora.\<close>
\<close>

datatype body =
    FormatoInvalido
  | NoDisponible string string
  | ReservaConfirmada string string string
  | Menu
  | PedirFechas
  | Tours
  | Oferta
  | Asesor
  | RespuestaAI string
  | LoSiento

text \<open>The object \<^verbatim>\<open>opts\<close> that \<^verbatim>\<open>sendMessage\<close> gives to Twilio.\<close>

record message =
  msg_from :: string
  msg_to :: string
  msg_body :: body
  msg_mediaUrl :: "string list option"

record session =
  step :: string

text \<open>The fields of \<^verbatim>\<open>req.body\<close> the handler reads.\<close>

record request =
  Body :: "string option"
  From :: string

subsection \<open>Collaborators, state and trace\<close>

datatype collaborator = Firestore | QRCode | PDFKit | Ftp | Twilio | OpenAI

text \<open>
  What the world outside the handler does during one request: whether each
  collaborator call succeeds and what it returns. \<open>None\<close> and \<open>False\<close> are a
  rejected promise.
\<close>

record env =
  clock :: "nat \<times> nat \<times> nat"
  twilio_number :: string
  firestore_get :: "string \<Rightarrow> bool"
  firestore_add :: "(string \<times> reserva) list \<Rightarrow> reserva \<Rightarrow> string option"
  qrcode_toBuffer :: "string \<Rightarrow> buffer option"
  pdf_render :: "pdf_reserva \<Rightarrow> buffer \<Rightarrow> buffer option"
  ftp_upload :: "string \<Rightarrow> buffer \<Rightarrow> bool"
  twilio_create :: "message \<Rightarrow> bool"
  openai_create :: "string \<Rightarrow> string option"

datatype event =
    FirestoreGet string
  | FirestoreAdd reserva
  | QRCodeToBuffer string
  | FtpUpload string buffer
  | PDFRender pdf_reserva buffer
  | TwilioCreate message
  | OpenAICreate string
  | SessionSet string
  | SessionDelete string

text \<open>
  The state that outlives a request: the object \<^verbatim>\<open>sessions\<close>, the collection
  \<^verbatim>\<open>reservas\<close> (documents with their ids, in the order of creation) and the trace.

  \<^verbatim>\<open>sessions\<close> is a plain object \<^verbatim>\<open>{}\<close> used as a dictionary. Its own properties are
  the map \<open>sessions\<close>. One key never becomes an own property: reading or writing
  \<^verbatim>\<open>sessions['__proto__']\<close> runs the accessor inherited from \<^verbatim>\<open>Object.prototype\<close>,
  which reads or replaces the prototype of the object, and \<^verbatim>\<open>delete\<close> finds no own
  property to remove. \<open>sessions_proto\<close> is the object that an assignment has put in
  the place of the prototype, if any; the key \<^verbatim>\<open>__proto__\<close> is read from it alone.
  Every other inherited name (\<^verbatim>\<open>constructor\<close>, \<^verbatim>\<open>toString\<close>, ...) reads a value
  that has no \<^verbatim>\<open>step\<close>, and is shadowed by an own property once assigned.
\<close>

record server =
  sessions :: "string \<rightharpoonup> session"
  sessions_proto :: "session option"
  reservas :: "(string \<times> reserva) list"
  trace :: "event list"

datatype outcome = Responded nat | Rejected collaborator
  \<comment> \<open>\<^verbatim>\<open>res.status(200).end()\<close>, or the handler's promise rejected with no response sent\<close>

definition emit :: "event \<Rightarrow> server \<Rightarrow> server" where
  "emit e s = s\<lparr>trace := trace s @ [e]\<rparr>"

definition awaiting :: "server \<Rightarrow> string \<Rightarrow> bool" where
  \<comment> \<open>\<^verbatim>\<open>sessions[from]?.step === 'waiting_dates'\<close>\<close>
  "awaiting s k =
     (case (if k = ''__proto__'' then sessions_proto s else sessions s k) of
        None \<Rightarrow> False
      | Some e \<Rightarrow> step e = ''waiting_dates'')"

definition session_set :: "string \<Rightarrow> session \<Rightarrow> server \<Rightarrow> server" where
  \<comment> \<open>\<^verbatim>\<open>sessions[from] = e\<close>\<close>
  "session_set k e s =
     emit (SessionSet k)
       (if k = ''__proto__'' then s\<lparr>sessions_proto := Some e\<rparr>
        else s\<lparr>sessions := (sessions s)(k \<mapsto> e)\<rparr>)"

definition session_delete :: "string \<Rightarrow> server \<Rightarrow> server" where
  \<comment> \<open>\<^verbatim>\<open>delete sessions[from]\<close>\<close>
  "session_delete k s = emit (SessionDelete k) (s\<lparr>sessions := (sessions s)(k := None)\<rparr>)"

subsection \<open>The availability check\<close>

fun range_free :: "reserva list \<Rightarrow> string \<Rightarrow> string \<Rightarrow> bool" where
  \<comment> \<open>the loop over \<^verbatim>\<open>snapshot.docs\<close>\<close>
  "range_free [] startDate endDate = True"
| "range_free (d # ds) startDate endDate =
     (if \<not> (endDate < fechaEntrada d \<or> startDate > fechaSalida d) then False
      else range_free ds startDate endDate)"

definition docs_of_room :: "string \<Rightarrow> server \<Rightarrow> reserva list" where
  \<comment> \<open>\<^verbatim>\<open>reservasRef.where('roomId', '==', roomId).get()\<close>\<close>
  "docs_of_room room s = map snd (filter (\<lambda>(i, d). roomId d = room) (reservas s))"

definition isRangeAvailable ::
  "env \<Rightarrow> string \<Rightarrow> string \<Rightarrow> string \<Rightarrow> server \<Rightarrow> bool option \<times> server" where
  \<comment> \<open>\<open>None\<close>: the query was rejected; \<open>Some a\<close>: \<^verbatim>\<open>{ available: a }\<close>\<close>
  "isRangeAvailable env room startDate endDate s =
     (let s1 = emit (FirestoreGet room) s in
      if firestore_get env room
      then (Some (range_free (docs_of_room room s1) startDate endDate), s1)
      else (None, s1))"

subsection \<open>Sending a message\<close>

definition message_opts :: "env \<Rightarrow> string \<Rightarrow> body \<Rightarrow> string option \<Rightarrow> message" where
  \<comment> \<open>the object \<^verbatim>\<open>opts\<close>; \<^verbatim>\<open>if (mediaUrl)\<close> is false for \<^verbatim>\<open>undefined\<close> and for the empty string\<close>
  "message_opts env dest b mediaUrl =
     \<lparr>msg_from = ''whatsapp:'' @ twilio_number env, msg_to = dest, msg_body = b,
      msg_mediaUrl =
        (case mediaUrl of
           None \<Rightarrow> None
         | Some u \<Rightarrow> if u \<noteq> [] then Some [u] else None)\<rparr>"

definition sendMessage ::
  "env \<Rightarrow> string \<Rightarrow> body \<Rightarrow> string option \<Rightarrow> server \<Rightarrow> collaborator option \<times> server" where
  \<comment> \<open>\<open>None\<close>: sent; \<open>Some Twilio\<close>: \<^verbatim>\<open>twilioClient.messages.create\<close> rejected\<close>
  "sendMessage env dest b mediaUrl s =
     (let opts = message_opts env dest b mediaUrl;
          s1 = emit (TwilioCreate opts) s
      in (if twilio_create env opts then None else Some Twilio, s1))"

subsection \<open>The booking branch of the handler\<close>

definition huesped :: string where
  \<comment> \<open>\<^verbatim>\<open>'Huesped WhatsApp'\<close>, its third letter being e with acute accent (U+00E9)\<close>
  "huesped = ''Hu'' @ [CHR 0xE9] @ ''sped WhatsApp''"

definition new_reserva :: "string \<Rightarrow> string \<Rightarrow> string \<Rightarrow> string \<Rightarrow> reserva" where
  \<comment> \<open>the object literal \<^verbatim>\<open>reserva\<close>\<close>
  "new_reserva sender room startDate endDate =
     \<lparr>nombre = huesped,
      phone = replace_first ''whatsapp:'' [] sender,
      fechaEntrada = startDate,
      fechaSalida = endDate,
      roomId = room,
      personas = 1,
      origen = ''WhatsApp'',
      estado = ''confirmada'',
      createdAt = ServerTimestamp,
      updatedAt = ServerTimestamp\<rparr>"

definition qr_data :: "string \<Rightarrow> string \<Rightarrow> string \<Rightarrow> string \<Rightarrow> string" where
  \<comment> \<open>the template \<^verbatim>\<open>qrData\<close>\<close>
  "qr_data ref_id room startDate endDate =
     ''Reserva ID: '' @ ref_id @ [CHR 0x0A] @
     ''Check-in: '' @ startDate @ '' - '' @ endDate @ [CHR 0x0A] @
     ''Room: '' @ room"

definition ftp_url :: "string \<Rightarrow> string" where
  \<comment> \<open>what \<^verbatim>\<open>uploadQRtoFTP\<close> and \<^verbatim>\<open>uploadPDFtoFTP\<close> return\<close>
  "ftp_url filename = ''https://duomoholding.com/qr/'' @ filename"

text \<open>
  The \<^verbatim>\<open>else\<close> branch of the availability test, from the object literal
  \<^verbatim>\<open>reserva\<close> to the confirmation message. \<open>None\<close>: every \<^verbatim>\<open>await\<close> returned;
  \<open>Some c\<close>: the call to \<open>c\<close> rejected and the statements after it did not run.
\<close>

definition confirm_booking ::
  "env \<Rightarrow> string \<Rightarrow> string \<Rightarrow> string \<Rightarrow> string \<Rightarrow> server \<Rightarrow> collaborator option \<times> server" where
  "confirm_booking env sender room startDate endDate s =
     (let r = new_reserva sender room startDate endDate;
          s1 = emit (FirestoreAdd r) s
      in case firestore_add env (reservas s1) r of
           None \<Rightarrow> (Some Firestore, s1)
         | Some ref_id \<Rightarrow>
             (let s2 = s1\<lparr>reservas := reservas s1 @ [(ref_id, r)]\<rparr>;
                  qrData = qr_data ref_id room startDate endDate;
                  s3 = emit (QRCodeToBuffer qrData) s2
              in case qrcode_toBuffer env qrData of
                   None \<Rightarrow> (Some QRCode, s3)
                 | Some qrBuffer \<Rightarrow>
                     (let qrFilename = ''reserva-'' @ ref_id @ ''.png'';
                          s4 = emit (FtpUpload qrFilename qrBuffer) s3
                      in if \<not> ftp_upload env qrFilename qrBuffer then (Some Ftp, s4)
                         else
                           (let facts = \<lparr>pdf_id = ref_id, pdf_nombre = nombre r,
                                          pdf_fechaEntrada = startDate,
                                          pdf_fechaSalida = endDate,
                                          pdf_personas = personas r\<rparr>;
                                s5 = emit (PDFRender facts qrBuffer) s4
                            in case pdf_render env facts qrBuffer of
                                 None \<Rightarrow> (Some PDFKit, s5)
                               | Some pdfBuffer \<Rightarrow>
                                   (let pdfFilename = ''reserva-'' @ ref_id @ ''.pdf'';
                                        s6 = emit (FtpUpload pdfFilename pdfBuffer) s5
                                    in if \<not> ftp_upload env pdfFilename pdfBuffer
                                       then (Some Ftp, s6)
                                       else sendMessage env sender
                                              (ReservaConfirmada ref_id startDate endDate)
                                              (Some (ftp_url pdfFilename)) s6)))))"

subsection \<open>The handler\<close>

definition reply :: "env \<Rightarrow> string \<Rightarrow> body \<Rightarrow> server \<Rightarrow> outcome \<times> server" where
  \<comment> \<open>\<^verbatim>\<open>await sendMessage(from, text); res.status(200).end()\<close>\<close>
  "reply env sender b s =
     (case sendMessage env sender b None s of
        (None, s1) \<Rightarrow> (Responded 200, s1)
      | (Some c, s1) \<Rightarrow> (Rejected c, s1))"

definition incomingMsg :: "request \<Rightarrow> string" where
  \<comment> \<open>\<^verbatim>\<open>req.body.Body?.trim() || ''\<close>\<close>
  "incomingMsg req = (case Body req of None \<Rightarrow> [] | Some b \<Rightarrow> trim b)"

definition whatsapp :: "env \<Rightarrow> request \<Rightarrow> server \<Rightarrow> outcome \<times> server" where
  "whatsapp env req s =
     (let sender = From req;
          msg = toLowerCase (incomingMsg req)
      in if awaiting s sender then
           (case regex_match (incomingMsg req) of
              None \<Rightarrow> reply env sender FormatoInvalido s
            | Some (m1, m2) \<Rightarrow>
                (let startDate = dayjs_format (clock env) m1;
                     endDate = dayjs_format (clock env) m2;
                     room = ''1''
                 in case isRangeAvailable env room startDate endDate s of
                      (None, s1) \<Rightarrow> (Rejected Firestore, s1)
                    | (Some available, s1) \<Rightarrow>
                        (case (if \<not> available
                               then sendMessage env sender (NoDisponible startDate endDate) None s1
                               else confirm_booking env sender room startDate endDate s1) of
                           (Some c, s2) \<Rightarrow> (Rejected c, s2)
                         | (None, s2) \<Rightarrow> (Responded 200, session_delete sender s2))))
         else if msg = ''hola'' \<or> msg = ''menu'' then reply env sender Menu s
         else if msg = ''1'' then
           reply env sender PedirFechas (session_set sender \<lparr>step = ''waiting_dates''\<rparr> s)
         else if msg = ''2'' then reply env sender Tours s
         else if msg = ''3'' then reply env sender Oferta s
         else if msg = ''4'' then reply env sender Asesor s
         else
           (let s1 = emit (OpenAICreate (incomingMsg req)) s in
            case (case openai_create env (incomingMsg req) of
                    None \<Rightarrow> (Some OpenAI, s1)
                  | Some aiResponse \<Rightarrow> sendMessage env sender (RespuestaAI aiResponse) None s1) of
              (None, s2) \<Rightarrow> (Responded 200, s2)
            | (Some c, s2) \<Rightarrow> reply env sender LoSiento s2))"

text \<open>
  The server from its start: no session, an empty trace, and the collection as
  Firestore holds it. A run handles the requests one after the other (each to its
  end: requests in flight together are outside this model), each in the world of
  its own moment.
\<close>

definition server_start :: "(string \<times> reserva) list \<Rightarrow> server" where
  "server_start db = \<lparr>sessions = Map.empty, sessions_proto = None, reservas = db, trace = []\<rparr>"

fun run :: "(env \<times> request) list \<Rightarrow> server \<Rightarrow> server" where
  "run [] s = s"
| "run ((env, req) # rest) s = run rest (snd (whatsapp env req s))"

subsection \<open>Notions used in the statements\<close>

definition call_fails :: "env \<Rightarrow> server \<Rightarrow> event \<Rightarrow> bool" where
  \<comment> \<open>the collaborator call that the event records is rejected, in the world \<open>env\<close> and
      with the collection as it is in \<open>s\<close>\<close>
  "call_fails env s ev =
     (case ev of
        FirestoreGet room \<Rightarrow> \<not> firestore_get env room
      | FirestoreAdd r \<Rightarrow> firestore_add env (reservas s) r = None
      | QRCodeToBuffer t \<Rightarrow> qrcode_toBuffer env t = None
      | FtpUpload name b \<Rightarrow> \<not> ftp_upload env name b
      | PDFRender f q \<Rightarrow> pdf_render env f q = None
      | TwilioCreate m \<Rightarrow> \<not> twilio_create env m
      | OpenAICreate t \<Rightarrow> openai_create env t = None
      | SessionSet k \<Rightarrow> False
      | SessionDelete k \<Rightarrow> False)"

definition callee :: "event \<Rightarrow> collaborator option" where
  "callee ev =
     (case ev of
        FirestoreGet room \<Rightarrow> Some Firestore
      | FirestoreAdd r \<Rightarrow> Some Firestore
      | QRCodeToBuffer t \<Rightarrow> Some QRCode
      | FtpUpload name b \<Rightarrow> Some Ftp
      | PDFRender f q \<Rightarrow> Some PDFKit
      | TwilioCreate m \<Rightarrow> Some Twilio
      | OpenAICreate t \<Rightarrow> Some OpenAI
      | SessionSet k \<Rightarrow> None
      | SessionDelete k \<Rightarrow> None)"

fun sent :: "event list \<Rightarrow> message list" where
  \<comment> \<open>the messages handed to Twilio, in order\<close>
  "sent [] = []"
| "sent (TwilioCreate m # evs) = m # sent evs"
| "sent (ev # evs) = sent evs"

fun written :: "env \<Rightarrow> server \<Rightarrow> event list \<Rightarrow> (string \<times> reserva) list" where
  \<comment> \<open>the documents that the calls \<^verbatim>\<open>add\<close> among the events have created\<close>
  "written env s [] = []"
| "written env s (FirestoreAdd r # evs) =
     (case firestore_add env (reservas s) r of None \<Rightarrow> [] | Some i \<Rightarrow> [(i, r)]) @
     written env s evs"
| "written env s (ev # evs) = written env s evs"

definition sessions_ok :: "server \<Rightarrow> bool" where
  \<comment> \<open>every entry of the session object, and the object put in the place of its
      prototype, has the step \<^verbatim>\<open>waiting_dates\<close>\<close>
  "sessions_ok s \<longleftrightarrow>
     (\<forall>k e. sessions s k = Some e \<longrightarrow> step e = ''waiting_dates'') \<and>
     (\<forall>e. sessions_proto s = Some e \<longrightarrow> step e = ''waiting_dates'')"

definition fixed_fields :: "reserva \<Rightarrow> bool" where
  \<comment> \<open>the fields of a booking that do not depend on the message\<close>
  "fixed_fields r \<longleftrightarrow>
     roomId r = ''1'' \<and> personas r = 1 \<and>
     nombre r = ''Hu'' @ [CHR 0xE9] @ ''sped WhatsApp'' \<and>
     origen r = ''WhatsApp'' \<and> estado r = ''confirmada'' \<and>
     createdAt r = ServerTimestamp \<and> updatedAt r = ServerTimestamp"

definition parse_dates :: "nat \<times> nat \<times> nat \<Rightarrow> string \<Rightarrow> (string \<times> string) option" where
  \<comment> \<open>the date-range parser of the specification: what the handler computes from the
      text between the test of the session and the availability check\<close>
  "parse_dates now text =
     (case regex_match text of
        None \<Rightarrow> None
      | Some (m1, m2) \<Rightarrow> Some (dayjs_format now m1, dayjs_format now m2))"



subsection \<open>Worlds and states of the examples\<close>

definition env_ok :: env where
  \<comment> \<open>a moment at which every collaborator answers\<close>
  "env_ok =
     \<lparr>clock = (2026, 10, 2), twilio_number = ''+14155238886'',
      firestore_get = (\<lambda>room. True),
      firestore_add = (\<lambda>db r. Some (''res'' @ decimal (length db))),
      qrcode_toBuffer = (\<lambda>t. Some [137, 80, 78, 71]),
      pdf_render = (\<lambda>f q. Some [37, 80, 68, 70]),
      ftp_upload = (\<lambda>name b. True),
      twilio_create = (\<lambda>m. True),
      openai_create = (\<lambda>t. Some ''Cusco'')\<rparr>"

definition env_ftp_down :: env where
  "env_ftp_down = env_ok\<lparr>ftp_upload := (\<lambda>name b. False)\<rparr>"

definition env_twilio_down :: env where
  "env_twilio_down = env_ok\<lparr>twilio_create := (\<lambda>m. False)\<rparr>"

definition guest :: string where
  "guest = ''whatsapp:+51999888777''"

definition october_booking :: "(string \<times> reserva) list" where
  "october_booking = [(''res0'', new_reserva ''whatsapp:+51911222333'' ''1'' ''2025-10-20'' ''2025-10-23'')]"

definition asked :: "string \<Rightarrow> (string \<times> reserva) list \<Rightarrow> server" where
  \<comment> \<open>the server after the sender's message \<^verbatim>\<open>1\<close>\<close>
  "asked sender db = run [(env_ok, \<lparr>Body = Some ''1'', From = sender\<rparr>)] (server_start db)"

definition stay_request :: "string \<Rightarrow> request" where
  \<comment> \<open>the sender asks for the nights from 20 to 23 October 2025\<close>
  "stay_request sender = \<lparr>Body = Some ''20/10/2025 - 23/10/2025'', From = sender\<rparr>"

section \<open>Properties\<close>

subsection \<open>The availability check\<close>

lemma range_free_iff:
  "range_free ds s e \<longleftrightarrow> (\<forall>b\<in>set ds. e < fechaEntrada b \<or> s > fechaSalida b)"
  by (induction ds) auto

lemma docs_of_room_set:
  "set (docs_of_room room st) = {b. \<exists>i. (i, b) \<in> set (reservas st) \<and> roomId b = room}"
  by (auto simp: docs_of_room_def image_iff)

lemma docs_of_room_emit [simp]: "docs_of_room room (emit ev st) = docs_of_room room st"
  by (simp add: docs_of_room_def emit_def)

lemma isRangeAvailable_eq:
  "isRangeAvailable env room s e st =
     (if firestore_get env room then Some (range_free (docs_of_room room st) s e) else None,
      emit (FirestoreGet room) st)"
  by (simp add: isRangeAvailable_def Let_def)

text \<open>
  The order in which two dates are compared is the lexicographic order of their
  characters, each character counting as its code.
\<close>

lemma string_less_lexicographic:
  "(s :: string) < t \<longleftrightarrow> (s, t) \<in> lexord {(c, d). (of_char c :: nat) < of_char d}"
  by (simp add: list_less_def less_char_def)

text \<open>
  C1, as the code has it. When the query for the room's bookings succeeds,
  \<^verbatim>\<open>isRangeAvailable\<close> answers \<open>available = true\<close> exactly if no booking \<open>[s', e']\<close>
  stored for that room satisfies \<open>\<not> (e < s' \<or> s > e')\<close>, the dates being compared
  as strings. In particular a candidate range with \<open>s \<le> e\<close> that touches a boundary
  of a stored range with \<open>s' \<le> e'\<close> (\<open>e = s'\<close> or \<open>s = e'\<close>) is refused, and a room
  with no booking is available.
\<close>

theorem isRangeAvailable_closed_intervals:
  assumes "firestore_get env room"
  shows "fst (isRangeAvailable env room s e st) =
           Some (\<not> (\<exists>(i, b)\<in>set (reservas st).
                      roomId b = room \<and> \<not> (e < fechaEntrada b \<or> s > fechaSalida b))) \<and>
         ((\<exists>(i, b)\<in>set (reservas st). roomId b = room \<and> s \<le> e \<and>
              fechaEntrada b \<le> fechaSalida b \<and> (e = fechaEntrada b \<or> s = fechaSalida b))
            \<longrightarrow> fst (isRangeAvailable env room s e st) = Some False) \<and>
         ((\<forall>(i, b)\<in>set (reservas st). roomId b \<noteq> room)
            \<longrightarrow> fst (isRangeAvailable env room s e st) = Some True)"
proof -
  let ?a = "range_free (docs_of_room room st) s e"
  have res: "fst (isRangeAvailable env room s e st) = Some ?a"
    using assms by (simp add: isRangeAvailable_eq)
  have iff: "?a \<longleftrightarrow> \<not> (\<exists>(i, b)\<in>set (reservas st).
                    roomId b = room \<and> \<not> (e < fechaEntrada b \<or> s > fechaSalida b))"
    unfolding range_free_iff docs_of_room_set by auto
  have touch: "(\<exists>(i, b)\<in>set (reservas st). roomId b = room \<and> s \<le> e \<and>
                fechaEntrada b \<le> fechaSalida b \<and> (e = fechaEntrada b \<or> s = fechaSalida b))
              \<longrightarrow> \<not> ?a"
    unfolding iff by (auto simp: not_less)
  have empty: "(\<forall>(i, b)\<in>set (reservas st). roomId b \<noteq> room) \<longrightarrow> ?a"
    unfolding iff by auto
  from res iff touch empty show ?thesis by simp
qed

text \<open>
  With the nights from 20 to 23 October booked, a stay from 23 to 25 October is
  refused: the day of departure of one guest cannot be the day of arrival of the
  next.
\<close>

theorem isRangeAvailable_closed_intervals_witness:
  "firestore_get env_ok ''1'' \<and>
   fst (isRangeAvailable env_ok ''1'' ''2025-10-23'' ''2025-10-25'' (server_start october_booking))
     = Some False"
proof -
  have q: "firestore_get env_ok ''1''"
    by (simp add: env_ok_def)
  have touching:
    "\<exists>(i, b)\<in>set (reservas (server_start october_booking)). roomId b = ''1'' \<and>
        ''2025-10-23'' \<le> ''2025-10-25'' \<and> fechaEntrada b \<le> fechaSalida b \<and>
        (''2025-10-25'' = fechaEntrada b \<or> ''2025-10-23'' = fechaSalida b)"
    by (simp add: server_start_def october_booking_def new_reserva_def)
  from isRangeAvailable_closed_intervals [OF q, of "''2025-10-23''" "''2025-10-25''"
      "server_start october_booking"] touching q
  show ?thesis by blast
qed

text \<open>
  The claim as the specification states it speaks of every candidate. Nothing
  orders the two dates of a candidate, and one that is given in reverse can touch
  a stored range and be accepted: with the nights from 20 to 23 October booked,
  the candidate that starts on 25 October and ends on 20 October is available.
\<close>

theorem touching_is_conflict_counterexample:
  "map (\<lambda>(i, b). (roomId b, fechaEntrada b, fechaSalida b)) october_booking =
     [(''1'', ''2025-10-20'', ''2025-10-23'')] \<and>
   fst (isRangeAvailable env_ok ''1'' ''2025-10-25'' ''2025-10-20'' (server_start october_booking))
     = Some True"
  by (simp add: isRangeAvailable_eq docs_of_room_def server_start_def october_booking_def
        new_reserva_def env_ok_def)

subsection \<open>The handler, branch by branch\<close>

lemma emit_simps [simp]:
  "trace (emit ev s) = trace s @ [ev]"
  "sessions (emit ev s) = sessions s"
  "sessions_proto (emit ev s) = sessions_proto s"
  "reservas (emit ev s) = reservas s"
  by (simp_all add: emit_def)

lemma call_fails_emit [simp]: "call_fails env (emit ev s) e = call_fails env s e"
  by (cases e) (simp_all add: call_fails_def)

lemma all_butlast_last:
  "evs \<noteq> [] \<Longrightarrow> (\<forall>ev\<in>set evs. P ev) \<longleftrightarrow> (\<forall>ev\<in>set (butlast evs). P ev) \<and> P (last evs)"
  by (induction evs) auto

lemma written_emit [simp]: "written env (emit ev s) evs = written env s evs"
  by (induction env s evs rule: written.induct) simp_all

lemma written_append [simp]:
  "written env s (evs @ evs') = written env s evs @ written env s evs'"
  by (induction env s evs rule: written.induct) simp_all

lemma session_delete_simps [simp]:
  "trace (session_delete k s) = trace s @ [SessionDelete k]"
  "sessions (session_delete k s) = (sessions s)(k := None)"
  "sessions_proto (session_delete k s) = sessions_proto s"
  "reservas (session_delete k s) = reservas s"
  by (simp_all add: session_delete_def)

lemma sendMessage_eq:
  "sendMessage env dest b media s =
     (if twilio_create env (message_opts env dest b media) then None else Some Twilio,
      emit (TwilioCreate (message_opts env dest b media)) s)"
  by (simp add: sendMessage_def Let_def)

lemma confirm_booking_shape:
  "\<exists>evs.
     trace (snd (confirm_booking env sender room sd ed s)) = trace s @ evs \<and>
     reservas (snd (confirm_booking env sender room sd ed s)) = reservas s @ written env s evs \<and>
     sessions (snd (confirm_booking env sender room sd ed s)) = sessions s \<and>
     sessions_proto (snd (confirm_booking env sender room sd ed s)) = sessions_proto s \<and>
     evs \<noteq> [] \<and>
     (\<forall>ev\<in>set (butlast evs). \<not> call_fails env s ev) \<and>
     (case fst (confirm_booking env sender room sd ed s) of
        None \<Rightarrow> \<not> call_fails env s (last evs)
      | Some c \<Rightarrow> call_fails env s (last evs) \<and> callee (last evs) = Some c)"
  unfolding confirm_booking_def sendMessage_eq Let_def
  by (auto simp: call_fails_def callee_def split: option.splits)

lemma whatsapp_matched:
  assumes "awaiting s (From req)" and "regex_match (incomingMsg req) = Some (m1, m2)"
  shows "whatsapp env req s =
     (if \<not> firestore_get env ''1'' then (Rejected Firestore, emit (FirestoreGet ''1'') s)
      else
        (case (if \<not> range_free (docs_of_room ''1'' s) (dayjs_format (clock env) m1)
                       (dayjs_format (clock env) m2)
               then sendMessage env (From req)
                      (NoDisponible (dayjs_format (clock env) m1) (dayjs_format (clock env) m2))
                      None (emit (FirestoreGet ''1'') s)
               else confirm_booking env (From req) ''1'' (dayjs_format (clock env) m1)
                      (dayjs_format (clock env) m2) (emit (FirestoreGet ''1'') s)) of
           (Some c, s2) \<Rightarrow> (Rejected c, s2)
         | (None, s2) \<Rightarrow> (Responded 200, session_delete (From req) s2)))"
  using assms
  by (simp add: whatsapp_def Let_def isRangeAvailable_def docs_of_room_def emit_def)

lemma booking_turn:
  assumes "awaiting s (From req)" and "regex_match (incomingMsg req) = Some (m1, m2)"
  shows "\<exists>evs.
     trace (snd (whatsapp env req s)) = trace s @ evs \<and>
     reservas (snd (whatsapp env req s)) = reservas s @ written env s evs \<and>
     evs \<noteq> [] \<and>
     (case fst (whatsapp env req s) of
        Responded n \<Rightarrow> n = 200 \<and> (\<forall>ev\<in>set evs. \<not> call_fails env s ev)
      | Rejected c \<Rightarrow>
          call_fails env s (last evs) \<and> callee (last evs) = Some c \<and>
          (\<forall>ev\<in>set (butlast evs). \<not> call_fails env s ev) \<and>
          sessions (snd (whatsapp env req s)) = sessions s \<and>
          sessions_proto (snd (whatsapp env req s)) = sessions_proto s)"
proof -
  let ?sd = "dayjs_format (clock env) m1" and ?ed = "dayjs_format (clock env) m2"
  let ?s1 = "emit (FirestoreGet ''1'') s"
  note w = whatsapp_matched [OF assms, of env]
  consider (query) "\<not> firestore_get env ''1''"
    | (taken) "firestore_get env ''1''" "\<not> range_free (docs_of_room ''1'' s) ?sd ?ed"
    | (free) "firestore_get env ''1''" "range_free (docs_of_room ''1'' s) ?sd ?ed"
    by blast
  then show ?thesis
  proof cases
    case query
    then show ?thesis
      unfolding w by (simp add: call_fails_def callee_def)
  next
    case taken
    then show ?thesis
      unfolding w sendMessage_eq by (simp add: call_fails_def callee_def)
  next
    case free
    let ?r = "confirm_booking env (From req) ''1'' ?sd ?ed ?s1"
    from confirm_booking_shape [of env "From req" "''1''" ?sd ?ed ?s1]
    obtain evs where evs:
      "trace (snd ?r) = trace ?s1 @ evs"
      "reservas (snd ?r) = reservas ?s1 @ written env ?s1 evs"
      "sessions (snd ?r) = sessions ?s1"
      "sessions_proto (snd ?r) = sessions_proto ?s1"
      "evs \<noteq> []"
      "\<forall>ev\<in>set (butlast evs). \<not> call_fails env ?s1 ev"
      "case fst ?r of None \<Rightarrow> \<not> call_fails env ?s1 (last evs)
        | Some c \<Rightarrow> call_fails env ?s1 (last evs) \<and> callee (last evs) = Some c"
      by blast
    have q: "\<not> call_fails env s (FirestoreGet ''1'')"
      using free by (simp add: call_fails_def)
    show ?thesis
    proof (cases "fst ?r")
      case None
      have all: "\<forall>ev\<in>set evs. \<not> call_fails env s ev"
        using evs(5,6,7) None by (simp add: all_butlast_last [of evs])
      have "whatsapp env req s = (Responded 200, session_delete (From req) (snd ?r))"
        unfolding w using free None by (auto split: prod.splits)
      then show ?thesis
        using evs all q
        by (intro exI [of _ "FirestoreGet ''1'' # evs @ [SessionDelete (From req)]"])
           (simp add: call_fails_def [of _ _ "SessionDelete _"])
    next
      case (Some c)
      have "whatsapp env req s = (Rejected c, snd ?r)"
        unfolding w using free Some by (auto split: prod.splits)
      then show ?thesis
        using evs Some q
        by (intro exI [of _ "FirestoreGet ''1'' # evs"]) simp
    qed
  qed
qed

lemma reply_eq:
  "reply env k b s =
     (if twilio_create env (message_opts env k b None) then Responded 200 else Rejected Twilio,
      emit (TwilioCreate (message_opts env k b None)) s)"
  by (simp add: reply_def sendMessage_eq)

lemma whatsapp_unmatched:
  assumes "awaiting s (From req)" and "regex_match (incomingMsg req) = None"
  shows "whatsapp env req s = reply env (From req) FormatoInvalido s"
  using assms by (simp add: whatsapp_def Let_def)

lemma whatsapp_one:
  assumes "\<not> awaiting s (From req)" and "toLowerCase (incomingMsg req) = ''1''"
  shows "whatsapp env req s =
           reply env (From req) PedirFechas (session_set (From req) \<lparr>step = ''waiting_dates''\<rparr> s)"
  using assms by (simp add: whatsapp_def Let_def)

lemma session_set_simps [simp]:
  "trace (session_set k e s) = trace s @ [SessionSet k]"
  "reservas (session_set k e s) = reservas s"
  "k \<noteq> ''__proto__'' \<Longrightarrow> sessions (session_set k e s) = (sessions s)(k \<mapsto> e)"
  "k \<noteq> ''__proto__'' \<Longrightarrow> sessions_proto (session_set k e s) = sessions_proto s"
  "sessions (session_set ''__proto__'' e s) = sessions s"
  "sessions_proto (session_set ''__proto__'' e s) = Some e"
  by (simp_all add: session_set_def)

lemma awaiting_emit [simp]: "awaiting (emit ev s) k = awaiting s k"
  by (simp add: awaiting_def)

lemma awaiting_trace_update [simp]: "awaiting (s\<lparr>trace := t\<rparr>) k = awaiting s k"
  by (simp add: awaiting_def)

lemma awaiting_session_set:
  "awaiting (session_set k \<lparr>step = ''waiting_dates''\<rparr> s) k"
  by (simp add: awaiting_def session_set_def emit_def)

lemma awaiting_session_delete:
  "k \<noteq> ''__proto__'' \<Longrightarrow> \<not> awaiting (session_delete k s) k"
  by (simp add: awaiting_def session_delete_def)

lemma confirm_booking_None:
  assumes "fst (confirm_booking env sender room sd ed s) = None"
  shows "\<exists>i qr pdf.
     firestore_add env (reservas s) (new_reserva sender room sd ed) = Some i \<and>
     qrcode_toBuffer env (qr_data i room sd ed) = Some qr \<and>
     pdf_render env \<lparr>pdf_id = i, pdf_nombre = huesped, pdf_fechaEntrada = sd,
                      pdf_fechaSalida = ed, pdf_personas = 1\<rparr> qr = Some pdf \<and>
     snd (confirm_booking env sender room sd ed s) =
       s\<lparr>reservas := reservas s @ [(i, new_reserva sender room sd ed)],
         trace := trace s @
           [FirestoreAdd (new_reserva sender room sd ed),
            QRCodeToBuffer (qr_data i room sd ed),
            FtpUpload (''reserva-'' @ i @ ''.png'') qr,
            PDFRender \<lparr>pdf_id = i, pdf_nombre = huesped, pdf_fechaEntrada = sd,
                        pdf_fechaSalida = ed, pdf_personas = 1\<rparr> qr,
            FtpUpload (''reserva-'' @ i @ ''.pdf'') pdf,
            TwilioCreate
              \<lparr>msg_from = ''whatsapp:'' @ twilio_number env, msg_to = sender,
               msg_body = ReservaConfirmada i sd ed,
               msg_mediaUrl = Some [''https://duomoholding.com/qr/reserva-'' @ i @ ''.pdf'']\<rparr>]\<rparr>"
proof -
  let ?r = "new_reserva sender room sd ed"
  have fields: "nombre ?r = huesped" "personas ?r = 1"
    by (simp_all add: new_reserva_def)
  note defs = confirm_booking_def sendMessage_eq Let_def fields
  obtain i where add: "firestore_add env (reservas s) ?r = Some i"
    using assms by (cases "firestore_add env (reservas s) ?r") (simp_all add: defs)
  obtain qr where qr: "qrcode_toBuffer env (qr_data i room sd ed) = Some qr"
    using assms add
    by (cases "qrcode_toBuffer env (qr_data i room sd ed)") (simp_all add: defs)
  have up1: "ftp_upload env (''reserva-'' @ i @ ''.png'') qr"
    using assms add qr by (simp add: defs split: if_splits)
  let ?facts = "\<lparr>pdf_id = i, pdf_nombre = huesped, pdf_fechaEntrada = sd,
                  pdf_fechaSalida = ed, pdf_personas = 1\<rparr>"
  obtain pdf where pdf: "pdf_render env ?facts qr = Some pdf"
    using assms add qr up1 by (cases "pdf_render env ?facts qr") (simp_all add: defs)
  have up2: "ftp_upload env (''reserva-'' @ i @ ''.pdf'') pdf"
    using assms add qr up1 pdf by (simp add: defs split: if_splits)
  have "snd (confirm_booking env sender room sd ed s) =
       s\<lparr>reservas := reservas s @ [(i, ?r)],
         trace := trace s @
           [FirestoreAdd ?r,
            QRCodeToBuffer (qr_data i room sd ed),
            FtpUpload (''reserva-'' @ i @ ''.png'') qr,
            PDFRender ?facts qr,
            FtpUpload (''reserva-'' @ i @ ''.pdf'') pdf,
            TwilioCreate
              \<lparr>msg_from = ''whatsapp:'' @ twilio_number env, msg_to = sender,
               msg_body = ReservaConfirmada i sd ed,
               msg_mediaUrl = Some [''https://duomoholding.com/qr/reserva-'' @ i @ ''.pdf'']\<rparr>]\<rparr>"
    using add qr up1 pdf up2
    by (simp add: defs emit_def message_opts_def ftp_url_def)
  with add qr pdf show ?thesis by blast
qed

lemma confirm_booking_all_succeed:
  assumes "\<forall>ev. \<not> call_fails env s ev"
  shows "fst (confirm_booking env sender room sd ed s) = None"
proof -
  have add: "firestore_add env (reservas s) r \<noteq> None" for r
    using assms [rule_format, of "FirestoreAdd r"] by (simp add: call_fails_def)
  have qr: "qrcode_toBuffer env t \<noteq> None" for t
    using assms [rule_format, of "QRCodeToBuffer t"] by (simp add: call_fails_def)
  have ftp: "ftp_upload env n b" for n b
    using assms [rule_format, of "FtpUpload n b"] by (simp add: call_fails_def)
  have pdf: "pdf_render env f q \<noteq> None" for f q
    using assms [rule_format, of "PDFRender f q"] by (simp add: call_fails_def)
  have tw: "twilio_create env m" for m
    using assms [rule_format, of "TwilioCreate m"] by (simp add: call_fails_def)
  show ?thesis
    unfolding confirm_booking_def sendMessage_eq Let_def
    by (auto simp: add qr ftp pdf tw split: option.splits)
qed

lemma booking_success:
  assumes "awaiting s (From req)"
      and "regex_match (incomingMsg req) = Some (m1, m2)"
      and "sd = dayjs_format (clock env) m1" and "ed = dayjs_format (clock env) m2"
      and "range_free (docs_of_room ''1'' s) sd ed"
      and "fst (whatsapp env req s) = Responded n"
  shows "\<exists>i qr pdf.
     firestore_add env (reservas s) (new_reserva (From req) ''1'' sd ed) = Some i \<and>
     qrcode_toBuffer env (qr_data i ''1'' sd ed) = Some qr \<and>
     pdf_render env \<lparr>pdf_id = i, pdf_nombre = huesped, pdf_fechaEntrada = sd,
                      pdf_fechaSalida = ed, pdf_personas = 1\<rparr> qr = Some pdf \<and>
     trace (snd (whatsapp env req s)) = trace s @
       [FirestoreGet ''1'',
        FirestoreAdd (new_reserva (From req) ''1'' sd ed),
        QRCodeToBuffer (qr_data i ''1'' sd ed),
        FtpUpload (''reserva-'' @ i @ ''.png'') qr,
        PDFRender \<lparr>pdf_id = i, pdf_nombre = huesped, pdf_fechaEntrada = sd,
                    pdf_fechaSalida = ed, pdf_personas = 1\<rparr> qr,
        FtpUpload (''reserva-'' @ i @ ''.pdf'') pdf,
        TwilioCreate
          \<lparr>msg_from = ''whatsapp:'' @ twilio_number env, msg_to = From req,
           msg_body = ReservaConfirmada i sd ed,
           msg_mediaUrl = Some [''https://duomoholding.com/qr/reserva-'' @ i @ ''.pdf'']\<rparr>,
        SessionDelete (From req)] \<and>
     reservas (snd (whatsapp env req s)) =
       reservas s @ [(i, new_reserva (From req) ''1'' sd ed)] \<and>
     sessions (snd (whatsapp env req s)) = (sessions s)(From req := None)"
proof -
  let ?s1 = "emit (FirestoreGet ''1'') s"
  let ?r = "confirm_booking env (From req) ''1'' sd ed ?s1"
  note w = whatsapp_matched [OF assms(1,2), of env, folded assms(3,4)]
  have q: "firestore_get env ''1''"
    using assms(6) unfolding w by (auto split: if_splits)
  have ok: "fst ?r = None"
    using assms(5,6) q unfolding w by (auto split: prod.splits option.splits)
  from confirm_booking_None [OF ok] obtain i qr pdf where c:
    "firestore_add env (reservas ?s1) (new_reserva (From req) ''1'' sd ed) = Some i"
    "qrcode_toBuffer env (qr_data i ''1'' sd ed) = Some qr"
    "pdf_render env \<lparr>pdf_id = i, pdf_nombre = huesped, pdf_fechaEntrada = sd,
                      pdf_fechaSalida = ed, pdf_personas = 1\<rparr> qr = Some pdf"
    "snd ?r =
       ?s1\<lparr>reservas := reservas ?s1 @ [(i, new_reserva (From req) ''1'' sd ed)],
         trace := trace ?s1 @
           [FirestoreAdd (new_reserva (From req) ''1'' sd ed),
            QRCodeToBuffer (qr_data i ''1'' sd ed),
            FtpUpload (''reserva-'' @ i @ ''.png'') qr,
            PDFRender \<lparr>pdf_id = i, pdf_nombre = huesped, pdf_fechaEntrada = sd,
                        pdf_fechaSalida = ed, pdf_personas = 1\<rparr> qr,
            FtpUpload (''reserva-'' @ i @ ''.pdf'') pdf,
            TwilioCreate
              \<lparr>msg_from = ''whatsapp:'' @ twilio_number env, msg_to = From req,
               msg_body = ReservaConfirmada i sd ed,
               msg_mediaUrl = Some [''https://duomoholding.com/qr/reserva-'' @ i @ ''.pdf'']\<rparr>]\<rparr>"
    by blast
  have out: "snd (whatsapp env req s) = session_delete (From req) (snd ?r)"
    unfolding w using assms(5) q ok by (auto split: prod.splits)
  have gone: "sessions (session_delete (From req) (snd ?r)) = (sessions s)(From req := None)"
    unfolding c(4) by (simp add: session_delete_def emit_def)
  show ?thesis
    using c(1,2,3) gone unfolding out
    by (intro exI [of _ i] exI [of _ qr] exI [of _ pdf]) (simp add: c(4))
qed

subsection \<open>Facts about the examples\<close>

lemma guest_not_proto: "guest \<noteq> ''__proto__''"
  by (simp add: guest_def)

lemma one_is_one: "toLowerCase (incomingMsg \<lparr>Body = Some ''1'', From = k\<rparr>) = ''1''"
  by (simp add: incomingMsg_def trim_def is_space_def toLowerCase_def lower_char_def)

lemma not_awaiting_start: "\<not> awaiting (server_start db) k"
  by (simp add: awaiting_def server_start_def)

lemma asked_eq:
  "asked k db =
     emit (TwilioCreate (message_opts env_ok k PedirFechas None))
       (session_set k \<lparr>step = ''waiting_dates''\<rparr> (server_start db))"
  by (simp add: asked_def whatsapp_one [OF not_awaiting_start] one_is_one reply_eq)

lemma asked_simps:
  "awaiting (asked k db) k"
  "reservas (asked k db) = db"
  "trace (asked k db) = [SessionSet k, TwilioCreate (message_opts env_ok k PedirFechas None)]"
  by (simp_all add: asked_eq awaiting_session_set) (simp_all add: server_start_def)

lemma stay_match:
  "regex_match (incomingMsg (stay_request k)) = Some (''20/10/2025'', ''23/10/2025'')"
  by (simp add: incomingMsg_def stay_request_def trim_def is_space_def match_here_def
        date_pattern_def is_digit_def)

lemma stay_from [simp]: "From (stay_request k) = k"
  by (simp add: stay_request_def)

lemma stay_dates:
  "dayjs_format (2026, 10, 2) ''20/10/2025'' = ''2025-10-20''"
  "dayjs_format (2026, 10, 2) ''23/10/2025'' = ''2025-10-23''"
  by (simp_all add: dayjs_format_def dayjs_parse_def format_iso_def date_pattern_def
        is_digit_def num_of_def digit_val_def js_Date_def days_in_month_def leap_year_def
        padStart_def digit_char_def)

lemma env_clock [simp]:
  "clock env_ok = (2026, 10, 2)" "clock env_ftp_down = (2026, 10, 2)"
  "clock env_twilio_down = (2026, 10, 2)"
  by (simp_all add: env_ok_def env_ftp_down_def env_twilio_down_def)

lemma env_ok_never_fails: "\<not> call_fails env_ok s ev"
  by (cases ev) (simp_all add: call_fails_def env_ok_def)

lemma whatsapp_all_succeed:
  assumes "awaiting s (From req)" and "regex_match (incomingMsg req) = Some (m1, m2)"
      and "\<forall>ev. \<not> call_fails env s ev"
  shows "fst (whatsapp env req s) = Responded 200"
proof -
  from booking_turn [OF assms(1,2), of env] assms(3)
  show ?thesis by (cases "fst (whatsapp env req s)") auto
qed

subsection \<open>Failures of collaborators in the booking branch\<close>

text \<open>
  C2, as the code has it. In the booking branch of the handler (the sender is
  awaited for dates and the text matches the pattern) no failure of a collaborator
  is caught. The calls of the turn are made one after the other; when one of them
  is rejected (the availability query, the write of the booking, the QR encoder,
  the PDF renderer, an upload or the Twilio send) it is the last event of the turn:
  the handler's promise is rejected with that failure, no response is sent, no
  call follows (so no message about the failure reaches the guest) and the session
  object is left as it was. Nothing done before is undone: the trace and the
  collection keep what they held, and the collection keeps the booking written in
  this turn. The turn is answered, with status 200, only when no call has failed.
\<close>

theorem booking_failure_ends_turn:
  assumes "awaiting s (From req)" and "regex_match (incomingMsg req) = Some (m1, m2)"
  shows "\<exists>evs.
     trace (snd (whatsapp env req s)) = trace s @ evs \<and>
     reservas (snd (whatsapp env req s)) = reservas s @ written env s evs \<and>
     evs \<noteq> [] \<and>
     (case fst (whatsapp env req s) of
        Responded n \<Rightarrow> n = 200 \<and> (\<forall>ev\<in>set evs. \<not> call_fails env s ev)
      | Rejected c \<Rightarrow>
          call_fails env s (last evs) \<and> callee (last evs) = Some c \<and>
          (\<forall>ev\<in>set (butlast evs). \<not> call_fails env s ev) \<and>
          sessions (snd (whatsapp env req s)) = sessions s \<and>
          sessions_proto (snd (whatsapp env req s)) = sessions_proto s)"
  using assms by (rule booking_turn)

text \<open>
  The guest has asked for a reservation and sends the dates; the FTP server is
  down. The booking is written, the code image is encoded, the upload fails and
  the turn ends there.
\<close>

lemma awaiting_reservas_update [simp]: "awaiting (s\<lparr>reservas := r\<rparr>) k = awaiting s k"
  by (simp add: awaiting_def)

lemma asked_awaits_stay: "awaiting (asked k db) (From (stay_request k))"
  by (simp add: asked_simps)

lemma ftp_down_run:
  "whatsapp env_ftp_down (stay_request guest) (asked guest []) =
     (Rejected Ftp,
      emit (FtpUpload ''reserva-res0.png'' [137, 80, 78, 71])
        (emit (QRCodeToBuffer (qr_data ''res0'' ''1'' ''2025-10-20'' ''2025-10-23''))
          ((emit (FirestoreAdd (new_reserva guest ''1'' ''2025-10-20'' ''2025-10-23''))
             (emit (FirestoreGet ''1'') (asked guest [])))
           \<lparr>reservas := [(''res0'', new_reserva guest ''1'' ''2025-10-20'' ''2025-10-23'')]\<rparr>)))"
  unfolding whatsapp_matched [OF asked_awaits_stay stay_match]
  by (simp add: stay_dates docs_of_room_def asked_simps confirm_booking_def Let_def
        env_ftp_down_def env_ok_def digit_char_def)

theorem booking_failure_ends_turn_witness:
  "awaiting (asked guest []) (From (stay_request guest)) \<and>
   regex_match (incomingMsg (stay_request guest)) = Some (''20/10/2025'', ''23/10/2025'') \<and>
   (\<exists>evs. trace (snd (whatsapp env_ftp_down (stay_request guest) (asked guest []))) =
            trace (asked guest []) @ evs \<and>
          call_fails env_ftp_down (asked guest []) (last evs) \<and>
          callee (last evs) = Some Ftp \<and>
          sessions (snd (whatsapp env_ftp_down (stay_request guest) (asked guest []))) =
            sessions (asked guest []))"
proof -
  have a: "awaiting (asked guest []) (From (stay_request guest))"
    by (simp add: asked_simps)
  note m = stay_match [of guest]
  have r: "fst (whatsapp env_ftp_down (stay_request guest) (asked guest [])) = Rejected Ftp"
    by (simp add: ftp_down_run)
  from booking_failure_ends_turn [OF a m, of env_ftp_down] r a m show ?thesis
    by auto
qed

text \<open>
  The claim as the specification states it fails at this input: the failure is not
  caught (the turn ends rejected, with no response), no message at all is sent in
  the turn, the sender is still awaited for dates, and the booking \<^verbatim>\<open>res0\<close>
  stays in the collection.
\<close>

theorem failure_caught_counterexample:
  "fst (whatsapp env_ftp_down (stay_request guest) (asked guest [])) = Rejected Ftp \<and>
   sent (drop (length (trace (asked guest [])))
           (trace (snd (whatsapp env_ftp_down (stay_request guest) (asked guest []))))) = [] \<and>
   awaiting (snd (whatsapp env_ftp_down (stay_request guest) (asked guest []))) guest \<and>
   map fst (reservas (snd (whatsapp env_ftp_down (stay_request guest) (asked guest [])))) =
     [''res0'']"
  by (simp add: ftp_down_run asked_simps)

subsection \<open>The order of the effects of a booking\<close>



subsection \<open>A text that is no date range\<close>

text \<open>
  C6. When the sender is awaited for dates and the text does not match the
  date-range pattern, the handler hands the format-error reply to Twilio and does
  nothing else: the session object, and with it the sender's entry, is unchanged,
  the sender is still awaited for dates, and the collection is untouched.
\<close>

theorem unmatched_text_keeps_waiting:
  assumes "awaiting s (From req)" and "regex_match (incomingMsg req) = None"
  shows "trace (snd (whatsapp env req s)) =
           trace s @
           [TwilioCreate \<lparr>msg_from = ''whatsapp:'' @ twilio_number env, msg_to = From req,
                          msg_body = FormatoInvalido, msg_mediaUrl = None\<rparr>] \<and>
         sessions (snd (whatsapp env req s)) = sessions s \<and>
         sessions_proto (snd (whatsapp env req s)) = sessions_proto s \<and>
         reservas (snd (whatsapp env req s)) = reservas s \<and>
         awaiting (snd (whatsapp env req s)) (From req)"
  using assms by (simp add: whatsapp_unmatched reply_eq message_opts_def)

theorem unmatched_text_keeps_waiting_witness:
  "awaiting (asked guest []) (From \<lparr>Body = Some ''hello'', From = guest\<rparr>) \<and>
   regex_match (incomingMsg \<lparr>Body = Some ''hello'', From = guest\<rparr>) = None \<and>
   map msg_body (sent (drop 2 (trace (snd (whatsapp env_ok \<lparr>Body = Some ''hello'', From = guest\<rparr>
      (asked guest [])))))) = [FormatoInvalido] \<and>
   awaiting (snd (whatsapp env_ok \<lparr>Body = Some ''hello'', From = guest\<rparr> (asked guest []))) guest"
proof -
  have a: "awaiting (asked guest []) (From \<lparr>Body = Some ''hello'', From = guest\<rparr>)"
    by (simp add: asked_simps)
  have m: "regex_match (incomingMsg \<lparr>Body = Some ''hello'', From = guest\<rparr>) = None"
    by (simp add: incomingMsg_def trim_def is_space_def match_here_def date_pattern_def
          is_digit_def)
  from unmatched_text_keeps_waiting [OF a m, of env_ok] a m
  show ?thesis by (simp add: asked_simps)
qed

subsection \<open>A range that is taken\<close>

lemma awaiting_keeps_proto:
  assumes "awaiting s (From req)"
  shows "sessions_proto (snd (whatsapp env req s)) = sessions_proto s"
proof (cases "regex_match (incomingMsg req)")
  case None
  with assms show ?thesis by (simp add: whatsapp_unmatched reply_eq)
next
  case (Some m)
  obtain m1 m2 where m: "regex_match (incomingMsg req) = Some (m1, m2)"
    using Some by (cases m) simp
  let ?sd = "dayjs_format (clock env) m1" and ?ed = "dayjs_format (clock env) m2"
  from confirm_booking_shape [of env "From req" "''1''" ?sd ?ed "emit (FirestoreGet ''1'') s"]
  have "sessions_proto (snd (confirm_booking env (From req) ''1'' ?sd ?ed
          (emit (FirestoreGet ''1'') s))) = sessions_proto s"
    by auto
  then show ?thesis
    unfolding whatsapp_matched [OF assms m] sendMessage_eq
    by (auto split: prod.splits option.splits)
qed

lemma declined_turn:
  assumes "awaiting s (From req)" and "regex_match (incomingMsg req) = Some (m1, m2)"
      and "sd = dayjs_format (clock env) m1" and "ed = dayjs_format (clock env) m2"
      and "fst (isRangeAvailable env ''1'' sd ed s) = Some False"
  shows "whatsapp env req s =
     (if twilio_create env (message_opts env (From req) (NoDisponible sd ed) None)
      then (Responded 200,
            session_delete (From req)
              (emit (TwilioCreate (message_opts env (From req) (NoDisponible sd ed) None))
                 (emit (FirestoreGet ''1'') s)))
      else (Rejected Twilio,
            emit (TwilioCreate (message_opts env (From req) (NoDisponible sd ed) None))
              (emit (FirestoreGet ''1'') s)))"
proof -
  from assms(5) have q: "firestore_get env ''1''" and taken: "\<not> range_free (docs_of_room ''1'' s) sd ed"
    by (auto simp: isRangeAvailable_eq split: if_splits)
  show ?thesis
    unfolding whatsapp_matched [OF assms(1,2), of env, folded assms(3,4)] sendMessage_eq
    using q taken by simp
qed

lemma env_twilio [simp]:
  "twilio_create env_ok m" "\<not> twilio_create env_twilio_down m" "twilio_create env_ftp_down m"
  by (simp_all add: env_ok_def env_twilio_down_def env_ftp_down_def)

lemma october_taken:
  "range_free (docs_of_room ''1'' (asked k october_booking)) ''2025-10-20'' ''2025-10-23'' = False"
  by (simp add: docs_of_room_def asked_simps october_booking_def new_reserva_def)

lemma october_unavailable:
  "fst (isRangeAvailable env_ok ''1'' ''2025-10-20'' ''2025-10-23'' (asked k october_booking))
     = Some False"
  "fst (isRangeAvailable env_twilio_down ''1'' ''2025-10-20'' ''2025-10-23''
          (asked k october_booking)) = Some False"
  by (simp_all add: isRangeAvailable_eq october_taken) (simp_all add: env_ok_def env_twilio_down_def)


lemma awaiting_session_delete_proto:
  "awaiting (session_delete k s) ''__proto__'' = awaiting s ''__proto__''"
  by (simp add: awaiting_def session_delete_def emit_def)

text \<open>
  C5, as the code has it. When the availability check answers \<open>false\<close> for the
  requested range, the booking branch is not entered: the turn makes the
  availability query and hands the decline reply to Twilio, and nothing else; no
  booking is written and no code or document is made or stored. When Twilio
  accepts the reply, the turn is answered and the handler then deletes the
  sender's entry from the session object, after which every sender but
  \<^verbatim>\<open>__proto__\<close> is idle. When Twilio rejects the reply, the turn ends there and the
  sender is still awaited for dates.
\<close>

theorem unavailable_range_declined:
  assumes "awaiting s (From req)" and "regex_match (incomingMsg req) = Some (m1, m2)"
      and "sd = dayjs_format (clock env) m1" and "ed = dayjs_format (clock env) m2"
      and "fst (isRangeAvailable env ''1'' sd ed s) = Some False"
  shows "reservas (snd (whatsapp env req s)) = reservas s \<and>
     trace (snd (whatsapp env req s)) =
       trace s @
       FirestoreGet ''1'' #
       TwilioCreate (message_opts env (From req) (NoDisponible sd ed) None) #
       (if twilio_create env (message_opts env (From req) (NoDisponible sd ed) None)
        then [SessionDelete (From req)] else []) \<and>
     (twilio_create env (message_opts env (From req) (NoDisponible sd ed) None) \<longrightarrow>
        fst (whatsapp env req s) = Responded 200 \<and>
        sessions (snd (whatsapp env req s)) = (sessions s)(From req := None) \<and>
        (From req \<noteq> ''__proto__'' \<longrightarrow> \<not> awaiting (snd (whatsapp env req s)) (From req))) \<and>
     (\<not> twilio_create env (message_opts env (From req) (NoDisponible sd ed) None) \<longrightarrow>
        fst (whatsapp env req s) = Rejected Twilio \<and>
        sessions (snd (whatsapp env req s)) = sessions s \<and>
        awaiting (snd (whatsapp env req s)) (From req))"
  unfolding declined_turn [OF assms]
  using assms(1) by (simp add: awaiting_session_delete)

theorem unavailable_range_declined_witness:
  "awaiting (asked guest october_booking) (From (stay_request guest)) \<and>
   regex_match (incomingMsg (stay_request guest)) = Some (''20/10/2025'', ''23/10/2025'') \<and>
   fst (isRangeAvailable env_ok ''1'' ''2025-10-20'' ''2025-10-23'' (asked guest october_booking))
     = Some False \<and>
   fst (whatsapp env_ok (stay_request guest) (asked guest october_booking)) = Responded 200 \<and>
   reservas (snd (whatsapp env_ok (stay_request guest) (asked guest october_booking))) =
     october_booking \<and>
   \<not> awaiting (snd (whatsapp env_ok (stay_request guest) (asked guest october_booking))) guest"
proof -
  note a = asked_awaits_stay [of guest october_booking]
  note m = stay_match [of guest]
  have sd: "''2025-10-20'' = dayjs_format (clock env_ok) ''20/10/2025''"
   and ed: "''2025-10-23'' = dayjs_format (clock env_ok) ''23/10/2025''"
    by (simp_all add: stay_dates)
  note u = october_unavailable(1) [of guest]
  from unavailable_range_declined [OF a m sd ed u] a m u guest_not_proto
  show ?thesis by (simp add: asked_simps)
qed

text \<open>
  The claim as the specification states it promises that the session is closed
  whenever the range is taken. Two runs in which it is not: the sender
  \<^verbatim>\<open>__proto__\<close>, whose state sits in the prototype of the session object, where
  \<^verbatim>\<open>delete\<close> does not reach (the decline reply is sent, the turn is answered, and
  the sender is still awaited for dates); and an ordinary guest at a moment when
  Twilio rejects the decline reply.
\<close>

theorem session_closed_counterexample:
  "fst (isRangeAvailable env_ok ''1'' ''2025-10-20'' ''2025-10-23''
          (asked ''__proto__'' october_booking)) = Some False \<and>
   fst (whatsapp env_ok (stay_request ''__proto__'') (asked ''__proto__'' october_booking))
     = Responded 200 \<and>
   map msg_body (sent (drop 2 (trace (snd (whatsapp env_ok (stay_request ''__proto__'')
          (asked ''__proto__'' october_booking)))))) = [NoDisponible ''2025-10-20'' ''2025-10-23''] \<and>
   awaiting (snd (whatsapp env_ok (stay_request ''__proto__'') (asked ''__proto__'' october_booking)))
     ''__proto__'' \<and>
   fst (isRangeAvailable env_twilio_down ''1'' ''2025-10-20'' ''2025-10-23''
          (asked guest october_booking)) = Some False \<and>
   fst (whatsapp env_twilio_down (stay_request guest) (asked guest october_booking))
     = Rejected Twilio \<and>
   awaiting (snd (whatsapp env_twilio_down (stay_request guest) (asked guest october_booking)))
     guest"
proof -
  have sd: "''2025-10-20'' = dayjs_format (clock env_ok) ''20/10/2025''"
   and ed: "''2025-10-23'' = dayjs_format (clock env_ok) ''23/10/2025''"
   and sd': "''2025-10-20'' = dayjs_format (clock env_twilio_down) ''20/10/2025''"
   and ed': "''2025-10-23'' = dayjs_format (clock env_twilio_down) ''23/10/2025''"
    by (simp_all add: stay_dates)
  note p = declined_turn [OF asked_awaits_stay stay_match sd ed october_unavailable(1),
      of "''__proto__''"]
  note g = declined_turn [OF asked_awaits_stay stay_match sd' ed' october_unavailable(2),
      of guest]
  show ?thesis
    unfolding p g
    by (simp add: october_unavailable asked_simps awaiting_session_delete_proto message_opts_def)
qed

subsection \<open>The dialogue of a reservation\<close>

lemma call_fails_same_collection:
  "reservas s' = reservas s \<Longrightarrow> call_fails env s' ev = call_fails env s ev"
  by (cases ev) (simp_all add: call_fails_def)






subsection \<open>What one request does, whatever the branch\<close>

lemma confirm_booking_events:
  "\<exists>evs new.
     trace (snd (confirm_booking env sender room sd ed s)) = trace s @ evs \<and>
     reservas (snd (confirm_booking env sender room sd ed s)) = reservas s @ new \<and>
     (\<forall>r. FirestoreAdd r \<in> set evs \<longrightarrow> r = new_reserva sender room sd ed) \<and>
     (\<forall>q. FirestoreGet q \<notin> set evs) \<and>
     (\<forall>(i, r)\<in>set new. r = new_reserva sender room sd ed)"
  unfolding confirm_booking_def sendMessage_eq Let_def
  by (auto split: option.splits)

lemma new_reserva_fixed: "fixed_fields (new_reserva sender ''1'' sd ed)"
  by (simp add: fixed_fields_def new_reserva_def huesped_def)

lemma whatsapp_not_awaiting:
  assumes "\<not> awaiting s (From req)"
  shows "whatsapp env req s =
     (let msg = toLowerCase (incomingMsg req) in
      if msg = ''hola'' \<or> msg = ''menu'' then reply env (From req) Menu s
      else if msg = ''1'' then
        reply env (From req) PedirFechas (session_set (From req) \<lparr>step = ''waiting_dates''\<rparr> s)
      else if msg = ''2'' then reply env (From req) Tours s
      else if msg = ''3'' then reply env (From req) Oferta s
      else if msg = ''4'' then reply env (From req) Asesor s
      else
        (let s1 = emit (OpenAICreate (incomingMsg req)) s in
         case (case openai_create env (incomingMsg req) of
                 None \<Rightarrow> (Some OpenAI, s1)
               | Some aiResponse \<Rightarrow>
                   sendMessage env (From req) (RespuestaAI aiResponse) None s1) of
           (None, s2) \<Rightarrow> (Responded 200, s2)
         | (Some c, s2) \<Rightarrow> reply env (From req) LoSiento s2))"
  using assms by (simp add: whatsapp_def Let_def)

text \<open>What one request does to the state, whatever the branch.\<close>

lemma whatsapp_step:
  "\<exists>evs new.
     trace (snd (whatsapp env req s)) = trace s @ evs \<and>
     reservas (snd (whatsapp env req s)) = reservas s @ new \<and>
     (\<forall>r. FirestoreAdd r \<in> set evs \<longrightarrow> fixed_fields r) \<and>
     (\<forall>q. FirestoreGet q \<in> set evs \<longrightarrow> q = ''1'') \<and>
     (\<forall>(i, r)\<in>set new. fixed_fields r)"
proof (cases "awaiting s (From req)")
  case False
  show ?thesis
    unfolding whatsapp_not_awaiting [OF False] Let_def reply_eq sendMessage_eq
    by (auto split: option.splits)
next
  case True
  show ?thesis
  proof (cases "regex_match (incomingMsg req)")
    case None
    with True show ?thesis by (simp add: whatsapp_unmatched reply_eq)
  next
    case (Some m)
    obtain m1 m2 where m: "regex_match (incomingMsg req) = Some (m1, m2)"
      using Some by (cases m) simp
    let ?sd = "dayjs_format (clock env) m1" and ?ed = "dayjs_format (clock env) m2"
    let ?s1 = "emit (FirestoreGet ''1'') s"
    let ?r = "confirm_booking env (From req) ''1'' ?sd ?ed ?s1"
    from confirm_booking_events [of env "From req" "''1''" ?sd ?ed ?s1]
    obtain evs new where c:
      "trace (snd ?r) = trace ?s1 @ evs"
      "reservas (snd ?r) = reservas ?s1 @ new"
      "\<forall>r. FirestoreAdd r \<in> set evs \<longrightarrow> r = new_reserva (From req) ''1'' ?sd ?ed"
      "\<forall>q. FirestoreGet q \<notin> set evs"
      "\<forall>(i, r)\<in>set new. r = new_reserva (From req) ''1'' ?sd ?ed"
      by blast
    have fx: "\<forall>r. FirestoreAdd r \<in> set evs \<longrightarrow> fixed_fields r"
      using c(3) by (auto simp: new_reserva_fixed)
    have fn: "\<forall>(i, r)\<in>set new. fixed_fields r"
      using c(5) by (auto simp: new_reserva_fixed)
    consider (query) "\<not> firestore_get env ''1''"
      | (taken) "firestore_get env ''1''" "\<not> range_free (docs_of_room ''1'' s) ?sd ?ed"
      | (free) "firestore_get env ''1''" "range_free (docs_of_room ''1'' s) ?sd ?ed"
      by blast
    then show ?thesis
    proof cases
      case query
      then show ?thesis unfolding whatsapp_matched [OF True m] by simp
    next
      case taken
      then show ?thesis unfolding whatsapp_matched [OF True m] sendMessage_eq by simp
    next
      case free
      have "snd (whatsapp env req s) = snd ?r \<or>
            snd (whatsapp env req s) = session_delete (From req) (snd ?r)"
        unfolding whatsapp_matched [OF True m] using free
        by (auto split: prod.splits option.splits)
      then show ?thesis
      proof
        assume e: "snd (whatsapp env req s) = snd ?r"
        show ?thesis unfolding e using c fx fn
          by (intro exI [of _ "FirestoreGet ''1'' # evs"] exI [of _ new]) simp
      next
        assume e: "snd (whatsapp env req s) = session_delete (From req) (snd ?r)"
        show ?thesis unfolding e using c fx fn
          by (intro exI [of _ "FirestoreGet ''1'' # evs @ [SessionDelete (From req)]"]
                exI [of _ new]) simp
      qed
    qed
  qed
qed

lemma whatsapp_sessions_step:
  "(sessions (snd (whatsapp env req s)) = sessions s \<and>
    sessions_proto (snd (whatsapp env req s)) = sessions_proto s) \<or>
   (awaiting s (From req) \<and>
    sessions (snd (whatsapp env req s)) = (sessions s)(From req := None) \<and>
    sessions_proto (snd (whatsapp env req s)) = sessions_proto s) \<or>
   (\<not> awaiting s (From req) \<and> toLowerCase (incomingMsg req) = ''1'' \<and>
    (if From req = ''__proto__''
     then sessions (snd (whatsapp env req s)) = sessions s \<and>
          sessions_proto (snd (whatsapp env req s)) = Some \<lparr>step = ''waiting_dates''\<rparr>
     else sessions (snd (whatsapp env req s)) =
            (sessions s)(From req \<mapsto> \<lparr>step = ''waiting_dates''\<rparr>) \<and>
          sessions_proto (snd (whatsapp env req s)) = sessions_proto s))"
proof (cases "awaiting s (From req)")
  case False
  show ?thesis
    unfolding whatsapp_not_awaiting [OF False] Let_def reply_eq sendMessage_eq
    using False by (auto split: option.splits)
next
  case True
  note proto = awaiting_keeps_proto [OF True, of env]
  show ?thesis
  proof (cases "regex_match (incomingMsg req)")
    case None
    with True show ?thesis by (simp add: whatsapp_unmatched reply_eq)
  next
    case (Some m)
    obtain m1 m2 where m: "regex_match (incomingMsg req) = Some (m1, m2)"
      using Some by (cases m) simp
    from booking_turn [OF True m, of env]
    have rej: "sessions (snd (whatsapp env req s)) = sessions s"
      if "fst (whatsapp env req s) = Rejected c" for c
      using that by auto
    let ?sd = "dayjs_format (clock env) m1" and ?ed = "dayjs_format (clock env) m2"
    let ?s1 = "emit (FirestoreGet ''1'') s"
    from confirm_booking_shape [of env "From req" "''1''" ?sd ?ed ?s1]
    have keep: "sessions (snd (confirm_booking env (From req) ''1'' ?sd ?ed ?s1)) = sessions s"
      by auto
    have ok: "sessions (snd (whatsapp env req s)) = (sessions s)(From req := None)"
      if "fst (whatsapp env req s) = Responded n" for n
      using that keep unfolding whatsapp_matched [OF True m] sendMessage_eq
      by (auto split: if_splits prod.splits option.splits)
    show ?thesis
      using rej ok proto True by (cases "fst (whatsapp env req s)") auto
  qed
qed

lemma sessions_ok_step: "sessions_ok s \<Longrightarrow> sessions_ok (snd (whatsapp env req s))"
  using whatsapp_sessions_step [of env req s]
  by (auto simp: sessions_ok_def split: if_splits)

lemma sessions_ok_run: "sessions_ok s \<Longrightarrow> sessions_ok (run reqs s)"
  by (induction reqs arbitrary: s) (auto simp: sessions_ok_step)

lemma sessions_ok_start: "sessions_ok (server_start db)"
  by (simp add: sessions_ok_def server_start_def)

lemma run_bookings:
  assumes "\<forall>r. FirestoreAdd r \<in> set (trace s) \<longrightarrow> fixed_fields r"
      and "\<forall>q. FirestoreGet q \<in> set (trace s) \<longrightarrow> q = ''1''"
      and "\<exists>new. reservas s = db @ new \<and> (\<forall>(i, r)\<in>set new. fixed_fields r)"
  shows "(\<forall>r. FirestoreAdd r \<in> set (trace (run reqs s)) \<longrightarrow> fixed_fields r) \<and>
         (\<forall>q. FirestoreGet q \<in> set (trace (run reqs s)) \<longrightarrow> q = ''1'') \<and>
         (\<exists>new. reservas (run reqs s) = db @ new \<and> (\<forall>(i, r)\<in>set new. fixed_fields r))"
  using assms
proof (induction reqs arbitrary: s)
  case Nil
  then show ?case by simp
next
  case (Cons a reqs)
  obtain env req where a: "a = (env, req)" by (cases a)
  let ?s' = "snd (whatsapp env req s)"
  from whatsapp_step [of env req s] obtain evs new where st:
    "trace ?s' = trace s @ evs" "reservas ?s' = reservas s @ new"
    "\<forall>r. FirestoreAdd r \<in> set evs \<longrightarrow> fixed_fields r"
    "\<forall>q. FirestoreGet q \<in> set evs \<longrightarrow> q = ''1''"
    "\<forall>(i, r)\<in>set new. fixed_fields r"
    by blast
  from Cons.prems(3) obtain old where old:
    "reservas s = db @ old" "\<forall>(i, r)\<in>set old. fixed_fields r"
    by blast
  have 1: "\<forall>r. FirestoreAdd r \<in> set (trace ?s') \<longrightarrow> fixed_fields r"
    using Cons.prems(1) st(1,3) by auto
  have 2: "\<forall>q. FirestoreGet q \<in> set (trace ?s') \<longrightarrow> q = ''1''"
    using Cons.prems(2) st(1,4) by auto
  have 3: "\<exists>new. reservas ?s' = db @ new \<and> (\<forall>(i, r)\<in>set new. fixed_fields r)"
    using old st(2,5) by (intro exI [of _ "old @ new"]) auto
  from Cons.IH [OF 1 2 3] show ?case by (simp add: a)
qed

lemma asked_run:
  "run [(env_ok, \<lparr>Body = Some ''1'', From = k\<rparr>), (env, req)] (server_start db) =
     snd (whatsapp env req (asked k db))"
  by (simp add: asked_def)

lemma ok_run_trace:
  "trace (snd (whatsapp env_ok (stay_request guest) (asked guest []))) =
     trace (asked guest []) @
     [FirestoreGet ''1'',
      FirestoreAdd (new_reserva guest ''1'' ''2025-10-20'' ''2025-10-23''),
      QRCodeToBuffer (qr_data ''res0'' ''1'' ''2025-10-20'' ''2025-10-23''),
      FtpUpload ''reserva-res0.png'' [137, 80, 78, 71],
      PDFRender \<lparr>pdf_id = ''res0'', pdf_nombre = huesped, pdf_fechaEntrada = ''2025-10-20'',
                  pdf_fechaSalida = ''2025-10-23'', pdf_personas = 1\<rparr> [137, 80, 78, 71],
      FtpUpload ''reserva-res0.pdf'' [37, 80, 68, 70],
      TwilioCreate
        \<lparr>msg_from = ''whatsapp:+14155238886'', msg_to = guest,
         msg_body = ReservaConfirmada ''res0'' ''2025-10-20'' ''2025-10-23'',
         msg_mediaUrl = Some [''https://duomoholding.com/qr/reserva-res0.pdf'']\<rparr>,
      SessionDelete guest]"
proof -
  have sd: "''2025-10-20'' = dayjs_format (clock env_ok) ''20/10/2025''"
   and ed: "''2025-10-23'' = dayjs_format (clock env_ok) ''23/10/2025''"
    by (simp_all add: stay_dates)
  have free: "range_free (docs_of_room ''1'' (asked guest [])) ''2025-10-20'' ''2025-10-23''"
    by (simp add: docs_of_room_def asked_simps)
  have out: "fst (whatsapp env_ok (stay_request guest) (asked guest [])) = Responded 200"
    by (rule whatsapp_all_succeed [OF asked_awaits_stay stay_match]) (simp add: env_ok_never_fails)
  from booking_success [OF asked_awaits_stay stay_match sd ed free out]
  show ?thesis
    by (auto simp: env_ok_def asked_simps digit_char_def)
qed

subsection \<open>The session object\<close>

text \<open>
  C9. The session object is a map from identities to entries, so it holds at most one
  entry for an identity. From the start of the server and after every handled
  message, every entry has the step \<^verbatim>\<open>waiting_dates\<close> (and so has the object that
  the key \<^verbatim>\<open>__proto__\<close> puts in the place of the prototype); one request keeps
  this. A request changes the entry of no identity but its sender, and that entry
  in two ways only: it removes it, or it sets it to the entry with the step
  \<^verbatim>\<open>waiting_dates\<close>, and this only when the sender was not awaited for dates and
  the text is \<^verbatim>\<open>1\<close>. No entry is ever given another step.
\<close>

theorem session_store_invariant:
  "sessions_ok (run reqs (server_start db)) \<and>
   (sessions_ok s \<longrightarrow> sessions_ok (snd (whatsapp env req s))) \<and>
   (sessions (snd (whatsapp env req s)) k = sessions s k \<or>
    k = From req \<and>
    (sessions (snd (whatsapp env req s)) k = None \<or>
     sessions (snd (whatsapp env req s)) k = Some \<lparr>step = ''waiting_dates''\<rparr> \<and>
     \<not> awaiting s k \<and> toLowerCase (incomingMsg req) = ''1'')) \<and>
   (sessions_proto (snd (whatsapp env req s)) = sessions_proto s \<or>
    From req = ''__proto__'' \<and>
    sessions_proto (snd (whatsapp env req s)) = Some \<lparr>step = ''waiting_dates''\<rparr> \<and>
    \<not> awaiting s ''__proto__'' \<and> toLowerCase (incomingMsg req) = ''1'')"
proof -
  have inv: "sessions_ok (run reqs (server_start db))"
    by (rule sessions_ok_run [OF sessions_ok_start])
  have step: "sessions_ok s \<longrightarrow> sessions_ok (snd (whatsapp env req s))"
    by (simp add: sessions_ok_step)
  have own: "sessions (snd (whatsapp env req s)) k = sessions s k \<or>
    k = From req \<and>
    (sessions (snd (whatsapp env req s)) k = None \<or>
     sessions (snd (whatsapp env req s)) k = Some \<lparr>step = ''waiting_dates''\<rparr> \<and>
     \<not> awaiting s k \<and> toLowerCase (incomingMsg req) = ''1'')"
    using whatsapp_sessions_step [of env req s] by (auto split: if_splits)
  have proto: "sessions_proto (snd (whatsapp env req s)) = sessions_proto s \<or>
    From req = ''__proto__'' \<and>
    sessions_proto (snd (whatsapp env req s)) = Some \<lparr>step = ''waiting_dates''\<rparr> \<and>
    \<not> awaiting s ''__proto__'' \<and> toLowerCase (incomingMsg req) = ''1''"
    using whatsapp_sessions_step [of env req s] by (auto split: if_splits)
  from inv step own proto show ?thesis by blast
qed

theorem session_store_invariant_witness:
  "sessions (run [(env_ok, \<lparr>Body = Some ''1'', From = guest\<rparr>)] (server_start [])) guest =
     Some \<lparr>step = ''waiting_dates''\<rparr> \<and>
   sessions_ok (run [(env_ok, \<lparr>Body = Some ''1'', From = guest\<rparr>)] (server_start [])) \<and>
   step (the (sessions (run [(env_ok, \<lparr>Body = Some ''1'', From = guest\<rparr>)] (server_start []))
          guest)) = ''waiting_dates''"
proof -
  have e: "sessions (run [(env_ok, \<lparr>Body = Some ''1'', From = guest\<rparr>)] (server_start [])) guest =
     Some \<lparr>step = ''waiting_dates''\<rparr>"
    using guest_not_proto unfolding asked_def [symmetric] by (simp add: asked_eq)
  from session_store_invariant
    [of "[(env_ok, \<lparr>Body = Some ''1'', From = guest\<rparr>)]" "[]"] e
  show ?thesis by (simp add: sessions_ok_def)
qed

subsection \<open>The constant fields of a booking\<close>

text \<open>
  C10. In every run of the server, every booking the handler hands to Firestore,
  and every document it thereby adds to the collection, has the room \<^verbatim>\<open>1\<close>, one
  person, the guest name \<^verbatim>\<open>Huesped WhatsApp\<close> (with its accent), the origin
  \<^verbatim>\<open>WhatsApp\<close>, the state \<^verbatim>\<open>confirmada\<close> and the server's time stamps: only the
  two dates and the telephone number depend on the message. Every availability
  query asks for the room \<^verbatim>\<open>1\<close>.
\<close>

theorem bookings_have_fixed_fields:
  "(\<forall>r. FirestoreAdd r \<in> set (trace (run reqs (server_start db))) \<longrightarrow> fixed_fields r) \<and>
   (\<forall>q. FirestoreGet q \<in> set (trace (run reqs (server_start db))) \<longrightarrow> q = ''1'') \<and>
   (\<exists>new. reservas (run reqs (server_start db)) = db @ new \<and>
          (\<forall>(i, r)\<in>set new. fixed_fields r))"
  by (rule run_bookings) (simp_all add: server_start_def)

theorem bookings_have_fixed_fields_witness:
  "FirestoreAdd (new_reserva guest ''1'' ''2025-10-20'' ''2025-10-23'') \<in>
     set (trace (run [(env_ok, \<lparr>Body = Some ''1'', From = guest\<rparr>), (env_ok, stay_request guest)]
                   (server_start []))) \<and>
   fixed_fields (new_reserva guest ''1'' ''2025-10-20'' ''2025-10-23'') \<and>
   FirestoreGet ''1'' \<in>
     set (trace (run [(env_ok, \<lparr>Body = Some ''1'', From = guest\<rparr>), (env_ok, stay_request guest)]
                   (server_start [])))"
proof -
  let ?s = "run [(env_ok, \<lparr>Body = Some ''1'', From = guest\<rparr>), (env_ok, stay_request guest)]
              (server_start [])"
  have a: "FirestoreAdd (new_reserva guest ''1'' ''2025-10-20'' ''2025-10-23'') \<in> set (trace ?s)"
    unfolding asked_run ok_run_trace by simp
  have g: "FirestoreGet ''1'' \<in> set (trace ?s)"
    unfolding asked_run ok_run_trace by simp
  from bookings_have_fixed_fields
    [of "[(env_ok, \<lparr>Body = Some ''1'', From = guest\<rparr>), (env_ok, stay_request guest)]" "[]"]
    a g
  show ?thesis by blast
qed

subsection \<open>Numbers and their digits\<close>















subsection \<open>The pattern and the date library\<close>









lemma date_pattern_length [simp]: "length date_pattern = 10"
  by (simp add: date_pattern_def)
















subsection \<open>Reading a date range\<close>

text \<open>
  The parser \<open>parse_dates\<close> is what the handler does with the text of a sender who
  is awaited for dates.
\<close>

lemma whatsapp_parse_dates:
  assumes "awaiting s (From req)"
  shows "whatsapp env req s =
     (case parse_dates (clock env) (incomingMsg req) of
        None \<Rightarrow> reply env (From req) FormatoInvalido s
      | Some (sd, ed) \<Rightarrow>
          (case isRangeAvailable env ''1'' sd ed s of
             (None, s1) \<Rightarrow> (Rejected Firestore, s1)
           | (Some available, s1) \<Rightarrow>
               (case (if \<not> available
                      then sendMessage env (From req) (NoDisponible sd ed) None s1
                      else confirm_booking env (From req) ''1'' sd ed s1) of
                  (Some c, s2) \<Rightarrow> (Rejected c, s2)
                | (None, s2) \<Rightarrow> (Responded 200, session_delete (From req) s2))))"
  using assms
  by (simp add: whatsapp_def parse_dates_def Let_def split: option.splits prod.splits)




subsection \<open>Dates that are not of the calendar\<close>




end
